theory Spec2Isabelle
  imports Complex_Main "HOL-Library.Sublist" "HOL-Library.Word"
begin

unbundle bit_operations_syntax

section \<open>Python strings\<close>

text \<open>
  A Python \<^verbatim>\<open>str\<close> is a sequence of Unicode code points, so it is modelled as a list of
  naturals (a code point is below \<^verbatim>\<open>0x110000\<close>). \<open>str\<close> writes an ASCII literal.
\<close>

type_synonym ustr = "nat list"

definition str :: "string \<Rightarrow> ustr" where
  "str s = map of_char s"

text \<open>
  The code points \<^verbatim>\<open>str.split()\<close>, \<^verbatim>\<open>str.strip()\<close> and the regular expression
  \<^verbatim>\<open>\s\<close> take for whitespace, and the ones \<^verbatim>\<open>str.splitlines()\<close> takes for a line
  boundary (CPython's \<^verbatim>\<open>_PyUnicode_IsWhitespace\<close> and \<^verbatim>\<open>_PyUnicode_IsLinebreak\<close>).
\<close>

definition isspace :: "nat \<Rightarrow> bool" where
  "isspace c \<longleftrightarrow>
     (9 \<le> c \<and> c \<le> 13) \<or> (28 \<le> c \<and> c \<le> 32) \<or> c = 133 \<or> c = 160 \<or> c = 5760 \<or>
     (8192 \<le> c \<and> c \<le> 8202) \<or> c = 8232 \<or> c = 8233 \<or> c = 8239 \<or> c = 8287 \<or> c = 12288"

definition islinebreak :: "nat \<Rightarrow> bool" where
  "islinebreak c \<longleftrightarrow>
     (10 \<le> c \<and> c \<le> 13) \<or> (28 \<le> c \<and> c \<le> 30) \<or> c = 133 \<or> c = 8232 \<or> c = 8233"

text \<open>\<^verbatim>\<open>s.strip()\<close>: whitespace removed at both ends.\<close>

definition lstrip :: "ustr \<Rightarrow> ustr" where
  "lstrip s = dropWhile isspace s"

definition rstrip :: "ustr \<Rightarrow> ustr" where
  "rstrip s = rev (dropWhile isspace (rev s))"

definition strip :: "ustr \<Rightarrow> ustr" where
  "strip s = rstrip (lstrip s)"

text \<open>
  \<^verbatim>\<open>s.split()\<close>: the maximal runs of non-whitespace, in order. The first argument
  holds the current run, reversed.
\<close>

fun split_run :: "ustr \<Rightarrow> ustr \<Rightarrow> ustr list" where
  "split_run cur [] = (if cur = [] then [] else [rev cur])"
| "split_run cur (c # s) =
     (if isspace c then (if cur = [] then split_run [] s else rev cur # split_run [] s)
      else split_run (c # cur) s)"

definition split :: "ustr \<Rightarrow> ustr list" where
  "split s = split_run [] s"

text \<open>
  \<^verbatim>\<open>s.splitlines()\<close>: the lines of \<open>s\<close> without their line boundaries; \<^verbatim>\<open>\r\n\<close> is one
  boundary, and a boundary at the very end opens no further line. The flag says that the
  previous code point was \<^verbatim>\<open>\r\<close>; the second argument holds the current line, reversed.
\<close>

fun splitlines_run :: "bool \<Rightarrow> ustr \<Rightarrow> ustr \<Rightarrow> ustr list" where
  "splitlines_run cr cur [] = (if cur = [] then [] else [rev cur])"
| "splitlines_run cr cur (c # s) =
     (if cr \<and> c = 10 then splitlines_run False cur s
      else if islinebreak c then rev cur # splitlines_run (c = 13) [] s
      else splitlines_run False (c # cur) s)"

definition splitlines :: "ustr \<Rightarrow> ustr list" where
  "splitlines s = splitlines_run False [] s"

text \<open>\<^verbatim>\<open>sep.join(parts)\<close>.\<close>

fun join :: "ustr \<Rightarrow> ustr list \<Rightarrow> ustr" where
  "join sep [] = []"
| "join sep [p] = p"
| "join sep (p # q # ps) = p @ sep @ join sep (q # ps)"

text \<open>
  Slices. Python's integers are unbounded and an index may be negative, counting from the
  end: \<open>slice_to n xs\<close> is \<^verbatim>\<open>xs[:n]\<close> and \<open>slice_from n xs\<close> is \<^verbatim>\<open>xs[n:]\<close>.
\<close>

definition slice_to :: "int \<Rightarrow> 'a list \<Rightarrow> 'a list" where
  "slice_to n xs = (if 0 \<le> n then take (nat n) xs else take (length xs - nat (- n)) xs)"

definition slice_from :: "int \<Rightarrow> 'a list \<Rightarrow> 'a list" where
  "slice_from n xs = (if 0 \<le> n then drop (nat n) xs else drop (length xs - nat (- n)) xs)"

section \<open>Exceptions and the world outside the program\<close>

text \<open>
  Every exception the modelled code can raise is a value. \<open>RequestError\<close> stands for
  whatever \<^verbatim>\<open>call_llm\<close> raises (a transport error, a non-2xx status, a response without the
  \<^verbatim>\<open>response\<close> field), told apart by a number. \<open>RuntimeError n last\<close> is the terminal error
  of the retry wrapper: \<open>n\<close> is the \<^verbatim>\<open>max_retries\<close> of its message and \<open>last\<close> the exception it
  was raised from.
\<close>

datatype exn =
    RequestError nat
  | RuntimeError int "exn option"
  | UnicodeEncodeError
  | ValueError
  | KeyError
  | XMLSyntaxError


section \<open>The disk cache (summarize.py, DiskCache)\<close>

text \<open>\<^verbatim>\<open>os.path.join(a, b)\<close> on a POSIX system; \<open>absolute p\<close> is \<^verbatim>\<open>p.startswith('/')\<close>.\<close>

definition absolute :: "ustr \<Rightarrow> bool" where
  "absolute p \<longleftrightarrow> p \<noteq> [] \<and> hd p = 47"

definition path_join :: "ustr \<Rightarrow> ustr \<Rightarrow> ustr" where
  "path_join a b =
     (if absolute b then b
      else if a = [] \<or> last a = 47 then a @ b
      else a @ [47] @ b)"











section \<open>The cache key (summarize.py, stable_hash)\<close>
























section \<open>What the Python library supplies\<close>

text \<open>
  The tables of the Unicode database and \<^verbatim>\<open>str.format\<close> belong to the interpreter, not to
  the repository, so every function that consults them takes them as \<open>L\<close>:
  \<open>py_lower\<close> is \<^verbatim>\<open>str.lower\<close>, \<open>py_nfkd\<close> is \<^verbatim>\<open>unicodedata.normalize("NFKD", s)\<close>,
  \<open>py_combining c\<close> says that \<^verbatim>\<open>unicodedata.combining(c)\<close> is not zero, \<open>py_isalnum\<close> and
  \<open>py_isdecimal\<close> are the classes behind \<^verbatim>\<open>\w\<close> and \<^verbatim>\<open>\d\<close>, and
  \<open>py_format t title txt\<close> is \<^verbatim>\<open>t.format(title=title, text=txt)\<close>, which raises on a template
  it cannot fill.
\<close>

record pylib =
  py_lower :: "ustr \<Rightarrow> ustr"
  py_nfkd :: "ustr \<Rightarrow> ustr"
  py_combining :: "nat \<Rightarrow> bool"
  py_isalnum :: "nat \<Rightarrow> bool"
  py_isdecimal :: "nat \<Rightarrow> bool"
  py_format :: "ustr \<Rightarrow> ustr \<Rightarrow> ustr \<Rightarrow> exn + ustr"

section \<open>Regular expressions (re.search)\<close>

text \<open>
  The fragment of \<^verbatim>\<open>re\<close> the source uses: a character class, a class repeated between
  \<open>lo\<close> and \<open>hi\<close> times (\<open>None\<close>: no upper bound), sequence, alternation and the word
  boundary \<^verbatim>\<open>\b\<close>. A matcher state is the code point before the position, if any, and the
  rest of the string; \<open>rx_match\<close> lists the states a match can end in, so a match exists
  iff the list is not empty. \<open>W\<close> is the class of word characters.
\<close>

datatype rx =
    Cls "nat \<Rightarrow> bool"
  | Rep "nat \<Rightarrow> bool" nat "nat option"
  | Seq rx rx
  | Alt rx rx
  | WordB

fun rx_rep :: "(nat \<Rightarrow> bool) \<Rightarrow> nat \<Rightarrow> nat option \<Rightarrow> nat option \<Rightarrow> ustr \<Rightarrow> (nat option \<times> ustr) list" where
  "rx_rep P lo hi prev [] = (if lo = 0 then [(prev, [])] else [])"
| "rx_rep P lo hi prev (c # s) =
     (if lo = 0 then [(prev, c # s)] else []) @
     (if P c \<and> hi \<noteq> Some 0 then rx_rep P (lo - 1) (map_option (\<lambda>n. n - 1) hi) (Some c) s
      else [])"

definition at_boundary :: "(nat \<Rightarrow> bool) \<Rightarrow> nat option \<Rightarrow> ustr \<Rightarrow> bool" where
  "at_boundary W prev s \<longleftrightarrow>
     (case prev of None \<Rightarrow> False | Some c \<Rightarrow> W c) \<noteq> (case s of [] \<Rightarrow> False | c # _ \<Rightarrow> W c)"

fun rx_match :: "(nat \<Rightarrow> bool) \<Rightarrow> rx \<Rightarrow> nat option \<Rightarrow> ustr \<Rightarrow> (nat option \<times> ustr) list" where
  "rx_match W (Cls P) prev s =
     (case s of [] \<Rightarrow> [] | c # r \<Rightarrow> if P c then [(Some c, r)] else [])"
| "rx_match W (Rep P lo hi) prev s = rx_rep P lo hi prev s"
| "rx_match W (Seq a b) prev s =
     concat (map (\<lambda>st. rx_match W b (fst st) (snd st)) (rx_match W a prev s))"
| "rx_match W (Alt a b) prev s = rx_match W a prev s @ rx_match W b prev s"
| "rx_match W WordB prev s = (if at_boundary W prev s then [(prev, s)] else [])"

fun rx_search_from :: "(nat \<Rightarrow> bool) \<Rightarrow> rx \<Rightarrow> nat option \<Rightarrow> ustr \<Rightarrow> bool" where
  "rx_search_from W r prev [] \<longleftrightarrow> rx_match W r prev [] \<noteq> []"
| "rx_search_from W r prev (c # s) \<longleftrightarrow>
     rx_match W r prev (c # s) \<noteq> [] \<or> rx_search_from W r (Some c) s"

definition wordchar :: "pylib \<Rightarrow> nat \<Rightarrow> bool" where
  "wordchar L c \<longleftrightarrow> py_isalnum L c \<or> c = 95"

text \<open>\<^verbatim>\<open>re.search(r, s) is not None\<close>.\<close>

definition re_search :: "pylib \<Rightarrow> rx \<Rightarrow> ustr \<Rightarrow> bool" where
  "re_search L r s = rx_search_from (wordchar L) r None s"

text \<open>
  The three patterns of \<^verbatim>\<open>compress_chapter\<close>:
  \<^verbatim>\<open>\b(1[6-9]\d{2}|20\d{2})\b\<close>, \<^verbatim>\<open>\b\d+\b\<close> and a capital letter followed by two or more
  small ones between word boundaries, the letters being A to Z and a to z with the accented
  vowels and the n with tilde of Spanish.
\<close>

definition year_rx :: "pylib \<Rightarrow> rx" where
  "year_rx L =
     Seq WordB
       (Seq (Alt (Seq (Cls (\<lambda>c. c = 49))
                   (Seq (Cls (\<lambda>c. 54 \<le> c \<and> c \<le> 57)) (Rep (py_isdecimal L) 2 (Some 2))))
                 (Seq (Cls (\<lambda>c. c = 50))
                   (Seq (Cls (\<lambda>c. c = 48)) (Rep (py_isdecimal L) 2 (Some 2)))))
          WordB)"

definition number_rx :: "pylib \<Rightarrow> rx" where
  "number_rx L = Seq WordB (Seq (Rep (py_isdecimal L) 1 None) WordB)"

definition capital :: "nat \<Rightarrow> bool" where
  "capital c \<longleftrightarrow> (65 \<le> c \<and> c \<le> 90) \<or> c \<in> {193, 201, 205, 211, 218, 209}"

definition small :: "nat \<Rightarrow> bool" where
  "small c \<longleftrightarrow> (97 \<le> c \<and> c \<le> 122) \<or> c \<in> {225, 233, 237, 243, 250, 241}"

definition proper_rx :: rx where
  "proper_rx = Seq WordB (Seq (Cls capital) (Seq (Rep small 2 None) WordB))"

section \<open>Chapter compression (summarize.py, sample_middle and compress_chapter)\<close>

text \<open>
  \<^verbatim>\<open>xs[::k]\<close>: every \<open>k\<close>-th element from the first one, from the last one backwards when
  \<open>k\<close> is negative; a step of zero raises \<^verbatim>\<open>ValueError\<close>.
\<close>

definition every_nth :: "nat \<Rightarrow> 'a list \<Rightarrow> 'a list" where
  "every_nth k xs = map (\<lambda>i. xs ! (i * k)) [0..<(length xs + k - 1) div k]"

definition slice_step :: "int \<Rightarrow> 'a list \<Rightarrow> exn + 'a list" where
  "slice_step k xs =
     (if k = 0 then Inl ValueError
      else if 0 < k then Inr (every_nth (nat k) xs)
      else Inr (every_nth (nat (- k)) (rev xs)))"

definition sample_middle :: "ustr \<Rightarrow> int \<Rightarrow> int \<Rightarrow> int \<Rightarrow> exn + ustr" where
  "sample_middle txt every max_samples min_words =
     (let paragraphs = map strip (filter (\<lambda>p. min_words \<le> int (length (split p))) (splitlines txt))
      in if int (length paragraphs) \<le> max_samples then Inr (join [10] paragraphs)
         else (case slice_step every paragraphs of
                 Inl e \<Rightarrow> Inl e
               | Inr stepped \<Rightarrow> Inr (join [10] (slice_to max_samples stepped))))"

text \<open>
  The loop over the lines that collects the signal lines: \<open>acc\<close> holds the lines kept so
  far. A line shorter than 60 is passed over before the test that ends the loop.
\<close>

fun signal_loop :: "pylib \<Rightarrow> int \<Rightarrow> int \<Rightarrow> ustr list \<Rightarrow> ustr list \<Rightarrow> ustr list" where
  "signal_loop L max_signal_lines max_line_len [] acc = acc"
| "signal_loop L max_signal_lines max_line_len (raw # rest) acc =
     (let line = strip raw in
      if length line < 60 then signal_loop L max_signal_lines max_line_len rest acc
      else
        let has_year = re_search L (year_rx L) line;
            has_number = re_search L (number_rx L) line;
            has_proper = re_search L proper_rx line;
            acc' = (if has_year \<or> has_number \<or> has_proper
                    then acc @ [if max_line_len < int (length line)
                                then rstrip (slice_to max_line_len line) @ [8230]
                                else line]
                    else acc)
        in if max_signal_lines \<le> int (length acc') then acc'
           else signal_loop L max_signal_lines max_line_len rest acc')"

definition compress_chapter ::
    "pylib \<Rightarrow> ustr \<Rightarrow> int \<Rightarrow> int \<Rightarrow> int \<Rightarrow> int \<Rightarrow> bool \<Rightarrow> exn + ustr" where
  "compress_chapter L txt head_words tail_words max_signal_lines max_line_len include_middle =
     (let words = split txt in
      if int (length words) \<le> head_words + tail_words + 250 then Inr txt
      else
        let head = join [32] (slice_to head_words words);
            tail = join [32] (slice_from (- tail_words) words);
            signal = join [10] (signal_loop L max_signal_lines max_line_len (splitlines txt) [])
        in case (if include_middle then sample_middle txt 12 8 40 else Inr []) of
             Inl e \<Rightarrow> Inl e
           | Inr middle \<Rightarrow>
               Inr (join [10]
                 ([str ''[INICIO]'', head] @
                  (if middle \<noteq> [] then [[], str ''[MEDIO]'', middle] else []) @
                  (if signal \<noteq> [] then [[], str ''[SE'' @ [209] @ str ''ALES]'', signal] else []) @
                  [[], str ''[FINAL]'', tail])))"

section \<open>The generation client (summarize.py, call_llm and call_llm_with_retry)\<close>





section \<open>Summarizing a chapter (summarize.py, render_prompt and summarize_chapter)\<close>




section \<open>A library table for Latin text\<close>

text \<open>
  For the evaluations below, a table that agrees with CPython's on the ASCII code points
  and on the accented letters of the source's own literals (the vowels with acute accent
  and the n with tilde, small and capital), and with \<^verbatim>\<open>str.format\<close> on the templates whose
  only braces are \<^verbatim>\<open>{title}\<close>, \<^verbatim>\<open>{text}\<close>, \<^verbatim>\<open>{{\<close> and \<^verbatim>\<open>}}\<close>. The strings evaluated with it
  hold nothing else.
\<close>

definition latin_lower :: "nat \<Rightarrow> nat" where
  "latin_lower c =
     (if (65 \<le> c \<and> c \<le> 90) \<or> c \<in> {193, 201, 205, 209, 211, 218} then c + 32 else c)"

definition latin_nfkd :: "nat \<Rightarrow> ustr" where
  "latin_nfkd c =
     (if c \<in> {193, 201, 205, 211, 218, 225, 233, 237, 243, 250}
      then [the (map_of [(193, 65), (201, 69), (205, 73), (211, 79), (218, 85),
                         (225, 97), (233, 101), (237, 105), (243, 111), (250, 117 :: nat)] c), 769]
      else if c = 209 then [78, 771]
      else if c = 241 then [110, 771]
      else [c])"

fun latin_format :: "ustr \<Rightarrow> ustr \<Rightarrow> ustr \<Rightarrow> exn + ustr" where
  "latin_format [] title txt = Inr []"
| "latin_format (c # s) title txt =
     (if c = 123 then
        (if take 1 s = [123] then map_sum id ((#) 123) (latin_format (drop 1 s) title txt)
         else if take 6 s = str ''title}'' then map_sum id ((@) title) (latin_format (drop 6 s) title txt)
         else if take 5 s = str ''text}'' then map_sum id ((@) txt) (latin_format (drop 5 s) title txt)
         else Inl ValueError)
      else if c = 125 then
        (if take 1 s = [125] then map_sum id ((#) 125) (latin_format (drop 1 s) title txt)
         else Inl ValueError)
      else map_sum id ((#) c) (latin_format s title txt))"

definition latin_lib :: pylib where
  "latin_lib =
     \<lparr>py_lower = map latin_lower,
      py_nfkd = (\<lambda>s. concat (map latin_nfkd s)),
      py_combining = (\<lambda>c. c = 769 \<or> c = 771),
      py_isalnum = (\<lambda>c. (48 \<le> c \<and> c \<le> 57) \<or> (65 \<le> c \<and> c \<le> 90) \<or> (97 \<le> c \<and> c \<le> 122) \<or>
                        c \<in> {193, 201, 205, 209, 211, 218, 225, 233, 237, 241, 243, 250}),
      py_isdecimal = (\<lambda>c. 48 \<le> c \<and> c \<le> 57),
      py_format = latin_format\<rparr>"





text \<open>A chapter that is one paragraph of 891 one-letter words.\<close>

definition long_paragraph :: ustr where
  "long_paragraph = join [32] (replicate 891 (str ''a''))"

section \<open>Keyword matching (extract.py, _norm and the keyword tables)\<close>

text \<open>
  \<^verbatim>\<open>re.sub(r"\s+", " ", s)\<close>: every maximal run of whitespace becomes one space. The flag
  says that the previous code point was whitespace.
\<close>

fun collapse_run :: "bool \<Rightarrow> ustr \<Rightarrow> ustr" where
  "collapse_run ws [] = []"
| "collapse_run ws (c # s) =
     (if isspace c then (if ws then collapse_run True s else 32 # collapse_run True s)
      else c # collapse_run False s)"

definition norm :: "pylib \<Rightarrow> ustr \<Rightarrow> ustr" where
  "norm L s =
     collapse_run False
       (filter (\<lambda>ch. \<not> py_combining L ch) (py_nfkd L (py_lower L (strip s))))"

text \<open>The accented letters of the tables: e, i and o with acute accent.\<close>

definition e_acute :: ustr where "e_acute = [233]"
definition i_acute :: ustr where "i_acute = [237]"
definition o_acute :: ustr where "o_acute = [243]"

definition NON_CHAPTER_KEYWORDS :: "ustr list" where
  "NON_CHAPTER_KEYWORDS =
     [str ''cover'', str ''portada'',
      str ''title'', str ''t'' @ i_acute @ str ''tulo'', str ''titulo'',
      str ''copyright'', str ''derechos'',
      str ''dedication'', str ''dedicatoria'',
      str ''epigraph'', str ''ep'' @ i_acute @ str ''grafe'', str ''epigrafe'',
      str ''preface'', str ''prefacio'',
      str ''foreword'', str ''pr'' @ o_acute @ str ''logo'', str ''prologo'',
      str ''introduction'', str ''introducci'' @ o_acute @ str ''n'', str ''introduccion'',
      str ''acknowledgements'', str ''acknowledgments'', str ''agradecimientos'',
      str ''contents'', str ''table of contents'', str ''Index'', i_acute @ str ''ndice'',
      str ''indice'', str ''sumario'',
      str ''notes'', str ''notas'',
      str ''endnotes'',
      str ''bibliography'', str ''bibliograf'' @ i_acute @ str ''a'', str ''bibliografia'',
      str ''references'', str ''referencias'',
      str ''glossary'', str ''glosario'',
      str ''appendix'', str ''ap'' @ e_acute @ str ''ndice'', str ''apendice'', str ''anexo'',
      str ''afterword'', str ''ep'' @ i_acute @ str ''logo'', str ''epilogo'',
      str ''colophon'', str ''colof'' @ o_acute @ str ''n'', str ''colofon'',
      str ''credits'', str ''cr'' @ e_acute @ str ''ditos'', str ''creditos'',
      str ''reconocimientos'']"

definition TOC_KEYWORDS :: "ustr list" where
  "TOC_KEYWORDS =
     [str ''indice'', i_acute @ str ''ndice'', str ''Index'', str ''contents'',
      str ''table of contents'', str ''sumario'']"

text \<open>
  The list as Python reads it. The source has no comma after the second literal of
  \<^verbatim>\<open>epigrafe\<close> (the accented one) nor after \<^verbatim>\<open>"dedication"\<close>, and adjacent string literals
  are one string: \<^verbatim>\<open>"bibliograph"\<close> and \<^verbatim>\<open>"appendix"\<close> are the tails of two longer entries,
  not entries of their own.
\<close>

definition NON_CHAPTER_PATH_HINTS :: "ustr list" where
  "NON_CHAPTER_PATH_HINTS =
     [str ''cover'', str ''portada'',
      str ''title'', str ''titulo'',
      str ''toc'', str ''contents'',
      str ''nav'', str ''ncx'',
      str ''copyright'',
      str ''preface'', str ''foreword'', str ''introduction'', str ''prologue'', str ''epilogue'',
      str ''acknowledg'', str ''agrade'', str ''epigraph'', str ''epigrafe'',
      str ''ep'' @ i_acute @ str ''grafe'' @ str ''bibliograph'', str ''bibliograf'',
      str ''notes'', str ''notas'', str ''dedication'' @ str ''appendix'',
      str ''apendice'', str ''ap'' @ e_acute @ str ''ndice'', str ''anexo'',
      str ''glossary'', str ''glosario'', str ''reconocimientos'']"

section \<open>The classifier (extract.py)\<close>

text \<open>\<^verbatim>\<open>a in b\<close> on strings is \<open>sublist a b\<close>: \<open>a\<close> occurs in \<open>b\<close> as a contiguous part.\<close>

definition looks_like_non_chapter :: "pylib \<Rightarrow> ustr \<Rightarrow> bool" where
  "looks_like_non_chapter L title =
     (let t = norm L title in list_ex (\<lambda>kw. sublist (norm L kw) t) NON_CHAPTER_KEYWORDS)"

definition looks_like_non_chapter_path :: "pylib \<Rightarrow> ustr \<Rightarrow> ustr \<Rightarrow> bool" where
  "looks_like_non_chapter_path L href idref =
     (let h = norm L href; i = norm L idref; blob = h @ [32] @ i
      in list_ex (\<lambda>hint. sublist (norm L hint) blob) NON_CHAPTER_PATH_HINTS)"

text \<open>
  \<^verbatim>\<open>[ln.strip() for ln in lines if ln.strip()]\<close>: the lines that are not blank, stripped.
\<close>

definition nonblank_stripped :: "ustr list \<Rightarrow> ustr list" where
  "nonblank_stripped lines = map strip (filter (\<lambda>ln. strip ln \<noteq> []) lines)"

text \<open>\<^verbatim>\<open>re.fullmatch(r, s) is not None\<close>: a match that ends at the end of the string.\<close>

definition re_fullmatch :: "pylib \<Rightarrow> rx \<Rightarrow> ustr \<Rightarrow> bool" where
  "re_fullmatch L r s = list_ex (\<lambda>st. snd st = []) (rx_match (wordchar L) r None s)"

definition looks_like_toc :: "pylib \<Rightarrow> ustr \<Rightarrow> bool" where
  "looks_like_toc L txt =
     (if txt = [] then False
      else
        let lines = nonblank_stripped (splitlines txt) in
        if lines = [] then False
        else
          let top_norm = norm L (join [10] (slice_to 60 lines));
              has_toc_word = list_ex (\<lambda>k. sublist (norm L k) top_norm) TOC_KEYWORDS
          in if \<not> has_toc_word then False
             else
               let dot_leaders =
                     length (filter (\<lambda>ln. re_search L (Rep (\<lambda>c. c = 46) 8 None) ln)
                       (slice_to 300 lines));
                   numeric_only =
                     length (filter (\<lambda>ln. re_fullmatch L (Rep (py_isdecimal L) 1 (Some 4)) ln)
                       (slice_to 300 lines))
               in 8 \<le> dot_leaders \<and> 8 \<le> numeric_only)"

definition copyright_keywords :: "ustr list" where
  "copyright_keywords =
     [str ''reservados todos los derechos'',
      str ''copyright'',
      str ''isbn'',
      str ''deposito legal'',
      str ''dep'' @ o_acute @ str ''sito legal'',
      str ''impreso en'',
      str ''printed in'',
      str ''editorial'',
      str ''derechos'']"

text \<open>
  \<open>copyright_top\<close> is the variable \<^verbatim>\<open>top\<close>: the first 80 lines of the text are taken, the
  blank ones among them are dropped, and the rest is stripped, joined and normalized.
\<close>

definition copyright_top :: "pylib \<Rightarrow> ustr \<Rightarrow> ustr" where
  "copyright_top L txt = norm L (join [10] (nonblank_stripped (slice_to 80 (splitlines txt))))"

definition looks_like_copyright_or_imprint :: "pylib \<Rightarrow> ustr \<Rightarrow> bool" where
  "looks_like_copyright_or_imprint L txt =
     (let top = copyright_top L txt;
          hits = length (filter (\<lambda>k. sublist (norm L k) top) copyright_keywords)
      in 2 \<le> hits)"

definition should_include_chapter :: "pylib \<Rightarrow> ustr \<Rightarrow> ustr \<Rightarrow> ustr \<Rightarrow> ustr \<Rightarrow> int \<Rightarrow> bool" where
  "should_include_chapter L title txt href idref min_words =
     (if int (length (split txt)) < min_words then False
      else if looks_like_non_chapter L title then False
      else if looks_like_non_chapter_path L href idref then False
      else True)"



text \<open>A text of \<open>n\<close> one-letter words on one line.\<close>

definition words_text :: "nat \<Rightarrow> ustr" where
  "words_text n = join [32] (replicate n (str ''a''))"



section \<open>Paths inside the archive (posixpath, extract.py _join_epub_path)\<close>

text \<open>\<^verbatim>\<open>s.split(sep)\<close> with a separator: the empty pieces are kept.\<close>

fun split_on :: "nat \<Rightarrow> ustr \<Rightarrow> ustr list" where
  "split_on sep [] = [[]]"
| "split_on sep (c # s) =
     (if c = sep then [] # split_on sep s
      else (case split_on sep s of [] \<Rightarrow> [[c]] | x # xs \<Rightarrow> (c # x) # xs))"

text \<open>\<^verbatim>\<open>posixpath.dirname\<close> and \<^verbatim>\<open>posixpath.basename\<close>: around the last slash.\<close>

definition dirname :: "ustr \<Rightarrow> ustr" where
  "dirname p =
     (let head = rev (dropWhile (\<lambda>c. c \<noteq> 47) (rev p)) in
      if head \<noteq> [] \<and> \<not> list_all (\<lambda>c. c = 47) head
      then rev (dropWhile (\<lambda>c. c = 47) (rev head))
      else head)"

definition basename :: "ustr \<Rightarrow> ustr" where
  "basename p = rev (takeWhile (\<lambda>c. c \<noteq> 47) (rev p))"

text \<open>
  \<^verbatim>\<open>posixpath.normpath\<close>: empty and \<^verbatim>\<open>.\<close> components go, \<^verbatim>\<open>..\<close> takes the component before
  it away, and exactly two leading slashes are kept as two.
\<close>

definition norm_step :: "nat \<Rightarrow> ustr \<Rightarrow> ustr list \<Rightarrow> ustr list" where
  "norm_step initial_slashes part new_comps =
     (if part = [] \<or> part = str ''.'' then new_comps
      else if part \<noteq> str ''..'' \<or> (initial_slashes = 0 \<and> new_comps = []) \<or>
              (new_comps \<noteq> [] \<and> last new_comps = str ''..'')
      then new_comps @ [part]
      else if new_comps \<noteq> [] then butlast new_comps
      else new_comps)"

definition normpath :: "ustr \<Rightarrow> ustr" where
  "normpath path =
     (if path = [] then str ''.''
      else
        let initial_slashes =
              (if absolute path
               then (if take 2 path = str ''//'' \<and> take 3 path \<noteq> str ''///'' then 2 else 1)
               else 0);
            comps = fold (norm_step initial_slashes) (split_on 47 path) [];
            joined = replicate initial_slashes 47 @ join [47] comps
        in if joined = [] then str ''.'' else joined)"

definition join_epub_path :: "ustr \<Rightarrow> ustr \<Rightarrow> ustr" where
  "join_epub_path base_dir href =
     (if base_dir = [] then href else normpath (path_join base_dir href))"

section \<open>XML documents and the archive\<close>

text \<open>
  An element as \<^verbatim>\<open>lxml\<close> presents it: its tag (namespace and local name), its attributes,
  the text before its first child, and its children. The queries are the ElementPath
  expressions of the source: \<open>find_all t e\<close> is \<^verbatim>\<open>e.findall(".//t")\<close>, the descendants of
  \<open>e\<close> with tag \<open>t\<close> in document order; \<open>find_first\<close> is \<^verbatim>\<open>e.find(".//t")\<close>; \<open>find_all2 a b e\<close>
  is \<^verbatim>\<open>e.findall(".//a/b")\<close>; \<open>get_attr\<close> is \<^verbatim>\<open>e.get(name)\<close>.
\<close>

datatype element =
  Element (etag: "ustr \<times> ustr") (eattrib: "(ustr \<times> ustr) list") (etext: "ustr option")
    (echildren: "element list")

fun descendants :: "element \<Rightarrow> element list" where
  "descendants (Element t a x cs) = concat (map (\<lambda>c. c # descendants c) cs)"

definition find_all :: "ustr \<times> ustr \<Rightarrow> element \<Rightarrow> element list" where
  "find_all t e = filter (\<lambda>d. etag d = t) (descendants e)"

definition find_first :: "ustr \<times> ustr \<Rightarrow> element \<Rightarrow> element option" where
  "find_first t e = find (\<lambda>d. etag d = t) (descendants e)"

definition find_all2 :: "ustr \<times> ustr \<Rightarrow> ustr \<times> ustr \<Rightarrow> element \<Rightarrow> element list" where
  "find_all2 a b e = concat (map (\<lambda>d. filter (\<lambda>c. etag c = b) (echildren d)) (find_all a e))"

definition get_attr :: "element \<Rightarrow> ustr \<Rightarrow> ustr option" where
  "get_attr e name = map_of (eattrib e) name"

definition container_ns :: ustr where
  "container_ns = str ''urn:oasis:names:tc:opendocument:xmlns:container''"

definition opf_ns :: ustr where
  "opf_ns = str ''http://www.idpf.org/2007/opf''"

definition dc_ns :: ustr where
  "dc_ns = str ''http://purl.org/dc/elements/1.1/''"

definition ncx_ns :: ustr where
  "ncx_ns = str ''http://www.daisy.org/z3986/2005/ncx/''"

text \<open>
  A member of the archive is kept as what the two parsing libraries make of its bytes:
  \<open>xml\<close> is the result of \<^verbatim>\<open>etree.fromstring\<close> (\<open>None\<close> when it raises \<^verbatim>\<open>XMLSyntaxError\<close>),
  \<open>soup_text\<close> is the text BeautifulSoup renders with one line per text node, after the
  script, style, nav, header, footer and aside elements are removed, \<open>body_title\<close> is the
  result of \<^verbatim>\<open>_extract_display_title_from_body\<close>, and \<open>title_tag\<close> the stripped text of the
  first \<^verbatim>\<open>title\<close> element, if there is one. An archive lists its members in the order of
  \<^verbatim>\<open>namelist()\<close>; of two members with one name, \<^verbatim>\<open>read\<close> returns the later.
\<close>

record member =
  xml :: "element option"
  soup_text :: ustr
  body_title :: "ustr option"
  title_tag :: "ustr option"

type_synonym zipfile = "(ustr \<times> member) list"

definition namelist :: "zipfile \<Rightarrow> ustr list" where
  "namelist zf = map fst zf"

definition zf_read :: "zipfile \<Rightarrow> ustr \<Rightarrow> member option" where
  "zf_read zf name = map_of (rev zf) name"

definition read_xml :: "zipfile \<Rightarrow> ustr \<Rightarrow> exn + element" where
  "read_xml zf path =
     (case zf_read zf path of
        None \<Rightarrow> Inl KeyError
      | Some m \<Rightarrow> (case xml m of None \<Rightarrow> Inl XMLSyntaxError | Some tree \<Rightarrow> Inr tree))"

definition html_to_text :: "member \<Rightarrow> ustr" where
  "html_to_text m =
     strip (join [10] (filter (\<lambda>ln. ln \<noteq> []) (map strip (splitlines (soup_text m)))))"

section \<open>Locating and reading the package descriptor (extract.py)\<close>

definition opf_candidates :: "ustr list" where
  "opf_candidates = [str ''content.opf'', str ''OEBPS/content.opf'', str ''OPS/content.opf'']"

text \<open>
  The loop over the conventional paths, and the \<^verbatim>\<open>ValueError\<close> after it when none is a
  member of the archive.
\<close>

definition opf_fallback :: "zipfile \<Rightarrow> exn + ustr" where
  "opf_fallback zf =
     (case find (\<lambda>candidate. candidate \<in> set (namelist zf)) opf_candidates of
        Some candidate \<Rightarrow> Inr candidate
      | None \<Rightarrow> Inl ValueError)"

text \<open>
  The path the container file declares: the \<^verbatim>\<open>full-path\<close> of its first \<^verbatim>\<open>rootfile\<close>
  element, when there is one and it is not empty.
\<close>

definition declared_opf_path :: "element \<Rightarrow> ustr option" where
  "declared_opf_path tree =
     (case find_first (container_ns, str ''rootfile'') tree of
        None \<Rightarrow> None
      | Some rootfile \<Rightarrow>
          (case get_attr rootfile (str ''full-path'') of
             None \<Rightarrow> None
           | Some p \<Rightarrow> if p \<noteq> [] then Some p else None))"

text \<open>
  Only \<^verbatim>\<open>KeyError\<close>, which \<^verbatim>\<open>zf.read\<close> raises for a name that is not in the archive, is
  caught; any other exception of the \<^verbatim>\<open>try\<close> block leaves the function.
\<close>

definition parse_container_for_opf_path :: "zipfile \<Rightarrow> exn + ustr" where
  "parse_container_for_opf_path zf =
     (case read_xml zf (str ''META-INF/container.xml'') of
        Inl e \<Rightarrow> if e = KeyError then opf_fallback zf else Inl e
      | Inr tree \<Rightarrow>
          (case declared_opf_path tree of
             Some p \<Rightarrow> Inr p
           | None \<Rightarrow> opf_fallback zf))"

definition parse_opf_metadata :: "element \<Rightarrow> ustr option \<times> ustr list" where
  "parse_opf_metadata opf_root =
     (let title =
            (case find_first (dc_ns, str ''title'') opf_root of
               None \<Rightarrow> None
             | Some title_el \<Rightarrow>
                 (case etext title_el of
                    None \<Rightarrow> None
                  | Some t \<Rightarrow> if t \<noteq> [] then Some (strip t) else None));
          creators =
            concat (map (\<lambda>c. case etext c of
                               None \<Rightarrow> []
                             | Some t \<Rightarrow> if t \<noteq> [] \<and> strip t \<noteq> [] then [strip t] else [])
                      (find_all (dc_ns, str ''creator'') opf_root))
      in (title, creators))"

text \<open>
  A Python \<^verbatim>\<open>dict\<close> keeps its keys in the order of their first insertion, and a later
  assignment to a key replaces the value in place.
\<close>

fun dict_set :: "'k \<Rightarrow> 'v \<Rightarrow> ('k \<times> 'v) list \<Rightarrow> ('k \<times> 'v) list" where
  "dict_set k v [] = [(k, v)]"
| "dict_set k v (p # ps) = (if fst p = k then (k, v) # ps else p # dict_set k v ps)"

definition attr_or_empty :: "element \<Rightarrow> ustr \<Rightarrow> ustr" where
  "attr_or_empty e name = (case get_attr e name of None \<Rightarrow> [] | Some v \<Rightarrow> v)"

text \<open>A manifest entry is the pair of its \<^verbatim>\<open>href\<close> and its \<^verbatim>\<open>media-type\<close>.\<close>

type_synonym manifest = "(ustr \<times> ustr \<times> ustr) list"

definition parse_opf_manifest_spine :: "element \<Rightarrow> manifest \<times> ustr list" where
  "parse_opf_manifest_spine opf_root =
     (let manifest =
            fold (\<lambda>item m.
                    let item_id = attr_or_empty item (str ''id'') in
                    if item_id = [] then m
                    else dict_set item_id
                           (attr_or_empty item (str ''href''), attr_or_empty item (str ''media-type'')) m)
              (find_all2 (opf_ns, str ''manifest'') (opf_ns, str ''item'') opf_root) [];
          spine_ids =
            filter (\<lambda>idref. idref \<noteq> [])
              (map (\<lambda>itemref. attr_or_empty itemref (str ''idref''))
                 (find_all2 (opf_ns, str ''spine'') (opf_ns, str ''itemref'') opf_root))
      in (manifest, spine_ids))"

definition toc_entry :: "ustr \<Rightarrow> element \<Rightarrow> (ustr \<times> ustr) list \<Rightarrow> (ustr \<times> ustr) list" where
  "toc_entry opf_dir np toc_map =
     (case (find_all2 (ncx_ns, str ''navLabel'') (ncx_ns, str ''text'') np,
            find_first (ncx_ns, str ''content'') np) of
        (label # _, Some content) \<Rightarrow>
          (case etext label of
             None \<Rightarrow> toc_map
           | Some label_text \<Rightarrow>
               let src = attr_or_empty content (str ''src'') in
               if label_text = [] \<or> src = [] then toc_map
               else dict_set (join_epub_path opf_dir (takeWhile (\<lambda>c. c \<noteq> 35) src))
                      (strip label_text) toc_map)
      | _ \<Rightarrow> toc_map)"

definition build_toc_title_map_from_ncx ::
    "zipfile \<Rightarrow> ustr \<Rightarrow> ustr \<Rightarrow> exn + (ustr \<times> ustr) list" where
  "build_toc_title_map_from_ncx zf ncx_path opf_dir =
     (case read_xml zf ncx_path of
        Inl e \<Rightarrow> Inl e
      | Inr ncx_root \<Rightarrow>
          (case find_first (ncx_ns, str ''navMap'') ncx_root of
             None \<Rightarrow> Inr []
           | Some nav_map \<Rightarrow>
               Inr (fold (toc_entry opf_dir) (find_all (ncx_ns, str ''navPoint'') nav_map) [])))"

section \<open>The extraction (extract.py, extract_chapters)\<close>

record Chapter =
  ch_idref :: ustr
  ch_href :: ustr
  ch_title :: ustr
  ch_text :: ustr

record metadata =
  md_title :: "ustr option"
  md_authors :: "ustr list"
  md_opf_path :: ustr
  md_ncx_path :: "ustr option"
  md_chapter_count :: nat

text \<open>\<^verbatim>\<open>if not a: a = b\<close>, for a value that is \<^verbatim>\<open>None\<close> or a string.\<close>

definition or_else :: "ustr option \<Rightarrow> ustr option \<Rightarrow> ustr option" where
  "or_else a b = (case a of None \<Rightarrow> b | Some s \<Rightarrow> if s \<noteq> [] then Some s else b)"

definition locate_ncx :: "pylib \<Rightarrow> element \<Rightarrow> manifest \<Rightarrow> ustr \<Rightarrow> ustr option" where
  "locate_ncx L opf_root manifest opf_dir =
     (let toc_id =
            (case find_first (opf_ns, str ''spine'') opf_root of
               None \<Rightarrow> None
             | Some spine_el \<Rightarrow> get_attr spine_el (str ''toc''));
          declared =
            (case toc_id of
               None \<Rightarrow> None
             | Some t \<Rightarrow>
                 if t = [] then None
                 else (case map_of manifest t of
                         None \<Rightarrow> None
                       | Some (ncx_href, mt) \<Rightarrow>
                           if ncx_href \<noteq> [] then Some (join_epub_path opf_dir ncx_href)
                           else None))
      in if declared \<noteq> None \<and> declared \<noteq> Some [] then declared
         else (case find (\<lambda>(item_id, item_href, mt).
                            mt = str ''application/x-dtbncx+xml'' \<or>
                            suffix (str ''.ncx'') (py_lower L item_href)) manifest of
                 None \<Rightarrow> declared
               | Some (item_id, item_href, mt) \<Rightarrow> Some (join_epub_path opf_dir item_href)))"

text \<open>
  The body of the loop over the spine for one \<^verbatim>\<open>idref\<close>: the chapter it appends, or
  \<open>None\<close> when it goes on to the next one.
\<close>

definition chapter_of ::
    "pylib \<Rightarrow> zipfile \<Rightarrow> ustr \<Rightarrow> manifest \<Rightarrow> (ustr \<times> ustr) list \<Rightarrow> int \<Rightarrow> ustr \<Rightarrow> Chapter option" where
  "chapter_of L zf opf_dir manifest toc_title_map min_words spine_idref =
     (case map_of manifest spine_idref of
        None \<Rightarrow> None
      | Some (item_href, mt) \<Rightarrow>
          let media_type = py_lower L mt in
          if media_type \<noteq> str ''application/xhtml+xml'' \<and> media_type \<noteq> str ''text/html''
          then None
          else
            let internal_path = join_epub_path opf_dir item_href in
            (case (if internal_path \<in> set (namelist zf) then zf_read zf internal_path
                   else None) of
               None \<Rightarrow> None
             | Some raw \<Rightarrow>
                 let txt = html_to_text raw;
                     title_guess =
                       (case or_else (or_else (or_else (map_of toc_title_map internal_path)
                                        (body_title raw)) (title_tag raw))
                                (Some (if spine_idref \<noteq> [] then spine_idref
                                       else basename internal_path)) of
                          None \<Rightarrow> []
                        | Some t \<Rightarrow> t)
                 in if looks_like_toc L txt then None
                    else if looks_like_copyright_or_imprint L txt then None
                    else if \<not> should_include_chapter L title_guess txt internal_path
                                 spine_idref min_words
                    then None
                    else Some \<lparr>ch_idref = spine_idref, ch_href = internal_path,
                               ch_title = title_guess, ch_text = txt\<rparr>))"

fun chapter_loop ::
    "pylib \<Rightarrow> zipfile \<Rightarrow> ustr \<Rightarrow> manifest \<Rightarrow> (ustr \<times> ustr) list \<Rightarrow> int \<Rightarrow> ustr list
      \<Rightarrow> Chapter list \<Rightarrow> Chapter list" where
  "chapter_loop L zf opf_dir manifest toc_title_map min_words [] chapters = chapters"
| "chapter_loop L zf opf_dir manifest toc_title_map min_words (spine_idref # rest) chapters =
     (case chapter_of L zf opf_dir manifest toc_title_map min_words spine_idref of
        None \<Rightarrow> chapter_loop L zf opf_dir manifest toc_title_map min_words rest chapters
      | Some ch \<Rightarrow>
          chapter_loop L zf opf_dir manifest toc_title_map min_words rest (chapters @ [ch]))"

text \<open>
  \<open>read_spine\<close> is the reading order \<^verbatim>\<open>extract_chapters\<close> walks: the \<^verbatim>\<open>spine_ids\<close> of the
  package descriptor, when the descriptor is found and parsed.
\<close>

definition read_spine :: "zipfile \<Rightarrow> exn + ustr list" where
  "read_spine zf =
     (case parse_container_for_opf_path zf of
        Inl e \<Rightarrow> Inl e
      | Inr opf_path \<Rightarrow>
          (case read_xml zf opf_path of
             Inl e \<Rightarrow> Inl e
           | Inr opf_root \<Rightarrow> Inr (snd (parse_opf_manifest_spine opf_root))))"

definition extract_chapters :: "pylib \<Rightarrow> zipfile \<Rightarrow> int \<Rightarrow> exn + metadata \<times> Chapter list" where
  "extract_chapters L zf min_words =
     (case parse_container_for_opf_path zf of
        Inl e \<Rightarrow> Inl e
      | Inr opf_path \<Rightarrow>
          let opf_dir = dirname opf_path in
          (case read_xml zf opf_path of
             Inl e \<Rightarrow> Inl e
           | Inr opf_root \<Rightarrow>
               let meta = parse_opf_metadata opf_root;
                   ms = parse_opf_manifest_spine opf_root;
                   manifest = fst ms;
                   spine_ids = snd ms;
                   ncx_path = locate_ncx L opf_root manifest opf_dir
               in (case (case ncx_path of
                           None \<Rightarrow> Inr []
                         | Some p \<Rightarrow>
                             if p \<noteq> [] \<and> p \<in> set (namelist zf)
                             then build_toc_title_map_from_ncx zf p opf_dir
                             else Inr []) of
                     Inl e \<Rightarrow> Inl e
                   | Inr toc_title_map \<Rightarrow>
                       let chapters =
                             chapter_loop L zf opf_dir manifest toc_title_map min_words
                               spine_ids []
                       in Inr (\<lparr>md_title = fst meta, md_authors = snd meta,
                                 md_opf_path = opf_path, md_ncx_path = ncx_path,
                                 md_chapter_count = length chapters\<rparr>, chapters))))"

section \<open>A small archive\<close>

text \<open>
  An archive with a container file, a package descriptor and four documents in the spine:
  a cover of two words, a chapter of seven, a bibliography of five and an empty page. The
  views of a member that the program never consults are left empty. Four more archives
  have no container file, a container file that is not well-formed, a container file
  without a \<^verbatim>\<open>rootfile\<close> element, and neither a container file nor a descriptor.
\<close>

definition xml_member :: "element \<Rightarrow> member" where
  "xml_member tree = \<lparr>xml = Some tree, soup_text = [], body_title = None, title_tag = None\<rparr>"

definition html_member :: "ustr \<Rightarrow> ustr option \<Rightarrow> ustr option \<Rightarrow> member" where
  "html_member txt heading doc_title =
     \<lparr>xml = None, soup_text = txt, body_title = heading, title_tag = doc_title\<rparr>"

definition container_tree :: element where
  "container_tree =
     Element (container_ns, str ''container'') [(str ''version'', str ''1.0'')] None
       [Element (container_ns, str ''rootfiles'') [] None
          [Element (container_ns, str ''rootfile'')
             [(str ''full-path'', str ''OEBPS/content.opf''),
              (str ''media-type'', str ''application/oebps-package+xml'')] None []]]"

definition opf_item :: "string \<Rightarrow> string \<Rightarrow> element" where
  "opf_item item_id item_href =
     Element (opf_ns, str ''item'')
       [(str ''id'', str item_id), (str ''href'', str item_href),
        (str ''media-type'', str ''application/xhtml+xml'')] None []"

definition opf_itemref :: "string \<Rightarrow> element" where
  "opf_itemref item_id = Element (opf_ns, str ''itemref'') [(str ''idref'', str item_id)] None []"

definition opf_tree :: element where
  "opf_tree =
     Element (opf_ns, str ''package'') [] None
       [Element (opf_ns, str ''metadata'') [] None
          [Element (dc_ns, str ''title'') [] (Some (str ''Mi libro'')) [],
           Element (dc_ns, str ''creator'') [] (Some (str ''Ana'')) []],
        Element (opf_ns, str ''manifest'') [] None
          [opf_item ''cover'' ''cover.xhtml'', opf_item ''ch1'' ''ch1.xhtml'',
           opf_item ''bib'' ''bib.xhtml'', opf_item ''p4'' ''p4.xhtml''],
        Element (opf_ns, str ''spine'') [] None
          [opf_itemref ''cover'', opf_itemref ''ch1'', opf_itemref ''bib'', opf_itemref ''p4'']]"

definition chapter_one_text :: ustr where
  "chapter_one_text = str ''Chapter One'' @ [10] @ str ''Era una vez un rey''"

definition book_documents :: zipfile where
  "book_documents =
     [(str ''OEBPS/content.opf'', xml_member opf_tree),
      (str ''OEBPS/cover.xhtml'', html_member (str ''Mi libro'') None (Some (str ''Portada''))),
      (str ''OEBPS/ch1.xhtml'',
         html_member chapter_one_text (Some (str ''Chapter One'')) None),
      (str ''OEBPS/bib.xhtml'',
         html_member (str ''Obras citadas por el autor'')
           (Some (str ''Bibliograf'' @ i_acute @ str ''a'')) None),
      (str ''OEBPS/p4.xhtml'', html_member [] None (Some (str ''Fin'')))]"

definition small_epub :: zipfile where
  "small_epub = (str ''META-INF/container.xml'', xml_member container_tree) # book_documents"

definition no_container_epub :: zipfile where
  "no_container_epub = book_documents"

definition broken_container_epub :: zipfile where
  "broken_container_epub =
     (str ''META-INF/container.xml'', html_member [] None None) # book_documents"

definition empty_container_epub :: zipfile where
  "empty_container_epub =
     (str ''META-INF/container.xml'',
      xml_member (Element (container_ns, str ''container'') [] None [])) # book_documents"

definition no_descriptor_epub :: zipfile where
  "no_descriptor_epub = [(str ''mimetype'', html_member [] None None)]"

text \<open>What the extraction makes of the small archive.\<close>

definition chapter_one :: Chapter where
  "chapter_one =
     \<lparr>ch_idref = str ''ch1'', ch_href = str ''OEBPS/ch1.xhtml'', ch_title = str ''Chapter One'',
      ch_text = chapter_one_text\<rparr>"

definition empty_page :: Chapter where
  "empty_page =
     \<lparr>ch_idref = str ''p4'', ch_href = str ''OEBPS/p4.xhtml'', ch_title = str ''Fin'',
      ch_text = []\<rparr>"

definition small_metadata :: "nat \<Rightarrow> metadata" where
  "small_metadata n =
     \<lparr>md_title = Some (str ''Mi libro''), md_authors = [str ''Ana''],
      md_opf_path = str ''OEBPS/content.opf'', md_ncx_path = None, md_chapter_count = n\<rparr>"

definition small_manifest :: manifest where
  "small_manifest =
     [(str ''cover'', str ''cover.xhtml'', str ''application/xhtml+xml''),
      (str ''ch1'', str ''ch1.xhtml'', str ''application/xhtml+xml''),
      (str ''bib'', str ''bib.xhtml'', str ''application/xhtml+xml''),
      (str ''p4'', str ''p4.xhtml'', str ''application/xhtml+xml'')]"

section \<open>Facts about the string functions\<close>





lemma splitlines_run_one_line:
  assumes "\<forall>c \<in> set s. \<not> islinebreak c"
  shows "splitlines_run False cur s = (if cur = [] \<and> s = [] then [] else [rev cur @ s])"
  using assms by (induction s arbitrary: cur) auto

lemma splitlines_one_line:
  assumes "\<forall>c \<in> set s. \<not> islinebreak c" "s \<noteq> []"
  shows "splitlines s = [s]"
  using assms by (simp add: splitlines_def splitlines_run_one_line)

lemma length_join: "sum_list (map length ps) \<le> length (join sep ps)"
  by (induction sep ps rule: join.induct) simp_all

lemma split_Nil: "split [] = []"
  by (simp add: split_def)

lemma split_run_word:
  assumes "\<forall>c \<in> set w. \<not> isspace c"
  shows "split_run cur (w @ s) = split_run (rev w @ cur) s"
  using assms by (induction w arbitrary: cur) simp_all

lemma join_replicate_Suc:
  "join sep (replicate (Suc (Suc n)) w) = w @ sep @ join sep (replicate (Suc n) w)"
  by simp

lemma split_join_replicate:
  assumes "\<forall>c \<in> set w. \<not> isspace c" "w \<noteq> []"
  shows "split (join [32] (replicate (Suc n) w)) = replicate (Suc n) w"
proof (induction n)
  case 0
  have "split_run [] (w @ []) = [w]"
    unfolding split_run_word [OF assms(1)] using assms(2) by simp
  then show ?case by (simp add: split_def)
next
  case (Suc n)
  have "split_run [] (w @ 32 # join [32] (replicate (Suc n) w))
      = w # split_run [] (join [32] (replicate (Suc n) w))"
    unfolding split_run_word [OF assms(1)] using assms(2) by (simp add: isspace_def)
  then show ?case
    using Suc by (simp add: split_def del: replicate.simps) (simp add: join_replicate_Suc)
qed

lemma set_join: "set (join sep ps) \<subseteq> set sep \<union> \<Union> (set ` set ps)"
  by (induction sep ps rule: join.induct) auto

lemma hd_join_replicate: "w \<noteq> [] \<Longrightarrow> hd (join sep (replicate (Suc n) w)) = hd w"
  by (cases n) simp_all

lemma join_replicate_Nil: "w \<noteq> [] \<Longrightarrow> join sep (replicate (Suc n) w) \<noteq> []"
  by (cases n) simp_all

lemma last_join_replicate: "w \<noteq> [] \<Longrightarrow> last (join sep (replicate (Suc n) w)) = last w"
proof (induction n)
  case 0
  then show ?case by simp
next
  case (Suc n)
  have "join sep (replicate (Suc n) w) \<noteq> []"
    by (rule join_replicate_Nil [OF Suc.prems])
  then show ?case
    using Suc unfolding join_replicate_Suc by simp
qed

lemma length_join_replicate:
  "length (join sep (replicate (Suc n) w)) = Suc n * length w + n * length sep"
proof (induction n)
  case 0
  show ?case by simp
next
  case (Suc n)
  show ?case
    unfolding join_replicate_Suc using Suc by simp
qed

lemma strip_id:
  assumes "s \<noteq> []" "\<not> isspace (hd s)" "\<not> isspace (last s)"
  shows "strip s = s"
proof -
  have "dropWhile isspace s = s"
    using assms(1,2) by (cases s) simp_all
  moreover have "dropWhile isspace (rev s) = rev s"
    using assms(1,3) by (cases "rev s") (simp_all add: last_rev [symmetric] del: last_rev)
  ultimately show ?thesis
    by (simp add: strip_def lstrip_def rstrip_def)
qed

lemma split_words_text:
  "split (words_text (Suc n)) = replicate (Suc n) (str ''a'')"
  unfolding words_text_def
  by (rule split_join_replicate) (simp_all add: str_def isspace_def)

lemmas norm_eval = norm_def latin_lib_def latin_lower_def latin_nfkd_def strip_def lstrip_def
  rstrip_def isspace_def str_def i_acute_def e_acute_def o_acute_def

lemma list_ex_norm:
  "list_ex (\<lambda>k. sublist (norm L k) b) ks = list_ex (\<lambda>k. sublist k b) (map (norm L) ks)"
  by (simp add: list_ex_iff)

lemma path_hints_norm:
  "map (norm latin_lib) NON_CHAPTER_PATH_HINTS =
     map str [''cover'', ''portada'', ''title'', ''titulo'', ''toc'', ''contents'', ''nav'',
       ''ncx'', ''copyright'', ''preface'', ''foreword'', ''introduction'', ''prologue'',
       ''epilogue'', ''acknowledg'', ''agrade'', ''epigraph'', ''epigrafe'',
       ''epigrafebibliograph'', ''bibliograf'', ''notes'', ''notas'', ''dedicationappendix'',
       ''apendice'', ''apendice'', ''anexo'', ''glossary'', ''glosario'', ''reconocimientos'']"
  by (simp add: NON_CHAPTER_PATH_HINTS_def norm_eval)

lemma keywords_norm:
  "map (norm latin_lib) NON_CHAPTER_KEYWORDS =
     map str [''cover'', ''portada'', ''title'', ''titulo'', ''titulo'', ''copyright'',
       ''derechos'', ''dedication'', ''dedicatoria'', ''epigraph'', ''epigrafe'', ''epigrafe'',
       ''preface'', ''prefacio'', ''foreword'', ''prologo'', ''prologo'', ''introduction'',
       ''introduccion'', ''introduccion'', ''acknowledgements'', ''acknowledgments'',
       ''agradecimientos'', ''contents'', ''table of contents'', ''index'', ''indice'',
       ''indice'', ''sumario'', ''notes'', ''notas'', ''endnotes'', ''bibliography'',
       ''bibliografia'', ''bibliografia'', ''references'', ''referencias'', ''glossary'',
       ''glosario'', ''appendix'', ''apendice'', ''apendice'', ''anexo'', ''afterword'',
       ''epilogo'', ''epilogo'', ''colophon'', ''colofon'', ''colofon'', ''credits'',
       ''creditos'', ''creditos'', ''reconocimientos'']"
  by (simp add: NON_CHAPTER_KEYWORDS_def norm_eval)

lemma copyright_keywords_norm:
  "map (norm latin_lib) copyright_keywords =
     map str [''reservados todos los derechos'', ''copyright'', ''isbn'', ''deposito legal'',
       ''deposito legal'', ''impreso en'', ''printed in'', ''editorial'', ''derechos'']"
  by (simp add: copyright_keywords_def norm_eval)

lemma hits_norm:
  "length (filter (\<lambda>k. sublist (norm L k) b) ks)
     = length (filter (\<lambda>k. sublist k b) (map (norm L) ks))"
  by (simp add: filter_map comp_def)

lemma strip_Nil: "strip [] = []"
  by (simp add: strip_def lstrip_def rstrip_def)


section \<open>Summarizing the same chapter twice\<close>










section \<open>Compression can lengthen a chapter\<close>

lemma join_two: "join sep (a # b # ps) = a @ sep @ join sep (b # ps)"
  by simp

lemma join_append:
  "xs \<noteq> [] \<Longrightarrow> ys \<noteq> [] \<Longrightarrow> join sep (xs @ ys) = join sep xs @ sep @ join sep ys"
proof (induction sep xs rule: join.induct)
  case (2 sep p)
  then show ?case by (cases ys) simp_all
qed simp_all

text \<open>
  The two parts of claim C2 that the code keeps. A text of at most
  \<^verbatim>\<open>head_words + tail_words + 250\<close> words is returned unchanged; for a longer one the output
  starts with the opening marker and the words of \<^verbatim>\<open>words[:head_words]\<close>, and ends with the
  closing marker and the words of \<^verbatim>\<open>words[-tail_words:]\<close>, each list joined by single spaces.
\<close>

lemma compress_chapter_unchanged:
  assumes "int (length (split txt)) \<le> head_words + tail_words + 250"
  shows "compress_chapter L txt head_words tail_words max_signal_lines max_line_len include_middle
           = Inr txt"
  using assms by (simp add: compress_chapter_def)

lemma compress_chapter_markers:
  assumes "head_words + tail_words + 250 < int (length (split txt))"
      and "compress_chapter L txt head_words tail_words max_signal_lines max_line_len
             include_middle = Inr out"
  shows "prefix (str ''[INICIO]'' @ [10] @ join [32] (slice_to head_words (split txt))) out \<and>
         suffix ([10, 10] @ str ''[FINAL]'' @ [10] @ join [32] (slice_from (- tail_words) (split txt)))
           out"
proof -
  define hd_part where "hd_part = join [32] (slice_to head_words (split txt))"
  define tl_part where "tl_part = join [32] (slice_from (- tail_words) (split txt))"
  define signal where
    "signal = join [10] (signal_loop L max_signal_lines max_line_len (splitlines txt) [])"
  obtain middle where
    m: "(if include_middle then sample_middle txt 12 8 40 else Inr []) = Inr middle"
    using assms
    by (cases "if include_middle then sample_middle txt 12 8 40 else Inr []")
       (simp_all add: compress_chapter_def Let_def del: join.simps)
  have o: "out = join [10] ([str ''[INICIO]'', hd_part] @
        (if middle \<noteq> [] then [[], str ''[MEDIO]'', middle] else []) @
        (if signal \<noteq> [] then [[], str ''[SE'' @ [209] @ str ''ALES]'', signal] else []) @
        [[], str ''[FINAL]'', tl_part])"
    using assms m unfolding compress_chapter_def Let_def hd_part_def tl_part_def signal_def
    by (simp del: join.simps)
  define mid where "mid = (if middle \<noteq> [] then [[], str ''[MEDIO]'', middle] else []) @
        (if signal \<noteq> [] then [[], str ''[SE'' @ [209] @ str ''ALES]'', signal] else [])"
  have out: "out = join [10] (([str ''[INICIO]'', hd_part] @ mid) @ [[], str ''[FINAL]'', tl_part])"
    unfolding o mid_def by simp
  have "out = join [10] ([str ''[INICIO]'', hd_part] @ mid) @ [10] @
      join [10] [[], str ''[FINAL]'', tl_part]"
    unfolding out by (rule join_append) simp_all
  then have s: "suffix ([10, 10] @ str ''[FINAL]'' @ [10] @ tl_part) out"
    by (simp add: suffix_def)
  have "join [10] (str ''[INICIO]'' # hd_part # rest) = (str ''[INICIO]'' @ [10] @ hd_part) @
      (if rest = [] then [] else [10] @ join [10] rest)" for rest
    by (cases rest) simp_all
  then have "prefix (str ''[INICIO]'' @ [10] @ hd_part) out"
    unfolding out by (metis append_Cons append_Nil append_assoc prefixI)
  with s show ?thesis
    unfolding hd_part_def tl_part_def by simp
qed

text \<open>
  Claim C2 says that the output of \<^verbatim>\<open>compress_chapter\<close> is never longer than its input. The
  code does otherwise: for every chapter that is one paragraph (no line boundary, no
  whitespace at either end) of more than 890 words, the call \<^verbatim>\<open>compress_chapter(text)\<close> of
  \<^verbatim>\<open>summarize_chapter\<close> returns a string longer than the chapter, because the middle sample
  holds the whole paragraph next to the opening and closing blocks.
\<close>

theorem compress_chapter_expands:
  assumes "\<not> list_ex islinebreak txt" and "strip txt = txt"
      and "890 < length (split txt)"
  shows "\<exists>out. compress_chapter L txt 320 320 18 220 True = Inr out \<and> length txt < length out"
proof -
  have ne: "txt \<noteq> []"
    using assms(3) by (auto simp: split_Nil)
  have lb: "\<forall>c \<in> set txt. \<not> islinebreak c"
    using assms(1) by (simp add: list_ex_iff)
  have middle: "sample_middle txt 12 8 40 = Inr txt"
    using assms(2,3) by (simp add: sample_middle_def splitlines_one_line [OF lb ne])
  define signal where "signal = join [10] (signal_loop L 18 220 (splitlines txt) [])"
  define parts where "parts =
     [str ''[INICIO]'', join [32] (slice_to 320 (split txt))] @ [[], str ''[MEDIO]'', txt] @
     (if signal \<noteq> [] then [[], str ''[SE'' @ [209] @ str ''ALES]'', signal] else []) @
     [[], str ''[FINAL]'', join [32] (slice_from (- 320) (split txt))]"
  have out: "compress_chapter L txt 320 320 18 220 True = Inr (join [10] parts)"
    using assms(3) ne by (simp add: compress_chapter_def middle Let_def parts_def signal_def)
  have "length (str ''[INICIO]'') + length txt \<le> sum_list (map length parts)"
    by (simp add: parts_def)
  also have "\<dots> \<le> length (join [10] parts)"
    by (rule length_join)
  finally have "length txt < length (join [10] parts)"
    by (simp add: str_def)
  with out show ?thesis by blast
qed

text \<open>
  The theorem at the paragraph of 891 words: it has 1781 code points and its compression
  has more.
\<close>

theorem compress_chapter_expands_witness:
  "\<not> list_ex islinebreak long_paragraph \<and> strip long_paragraph = long_paragraph \<and>
   890 < length (split long_paragraph) \<and> length long_paragraph = 1781 \<and>
   (\<exists>out. compress_chapter latin_lib long_paragraph 320 320 18 220 True = Inr out \<and> 1781 < length out)"
proof -
  have n: "(891::nat) = Suc 890"
    by simp
  have a: "\<forall>c \<in> set (str ''a''). \<not> isspace c" "str ''a'' \<noteq> []"
    by (simp_all add: str_def isspace_def)
  have "set long_paragraph \<subseteq> {32, 97}"
    using set_join [of "[32]" "replicate 891 (str ''a'')"] by (auto simp: long_paragraph_def str_def)
  then have lb: "\<not> list_ex islinebreak long_paragraph"
    by (auto simp: islinebreak_def list_ex_iff)
  have sp: "split long_paragraph = replicate 891 (str ''a'')"
    unfolding long_paragraph_def n by (rule split_join_replicate [OF a])
  have st: "strip long_paragraph = long_paragraph"
    unfolding long_paragraph_def n
    by (rule strip_id)
       (simp_all only: hd_join_replicate [OF a(2)] last_join_replicate [OF a(2)]
          join_replicate_Nil [OF a(2)], simp_all add: str_def isspace_def)
  have wc: "890 < length (split long_paragraph)"
    by (simp add: sp)
  have len: "length long_paragraph = 1781"
    unfolding long_paragraph_def n length_join_replicate by (simp add: str_def)
  show ?thesis
    using compress_chapter_expands [OF lb st wc, of latin_lib] lb st wc len by simp
qed

section \<open>The cache key and its four inputs\<close>










section \<open>Path hints that the classifier misses\<close>

lemma appendix_path:
  "looks_like_non_chapter_path latin_lib (str ''OEBPS/appendix.xhtml'') (str ''item12'') = False"
proof -
  have blob: "norm latin_lib (str ''OEBPS/appendix.xhtml'') @ [32] @ norm latin_lib (str ''item12'')
      = str ''oebps/appendix.xhtml item12''"
    by (simp add: norm_eval)
  show ?thesis
    unfolding looks_like_non_chapter_path_def Let_def list_ex_norm path_hints_norm blob
    by (simp add: str_def sublist_code prefix_code)
qed

lemma bibliography_path:
  "looks_like_non_chapter_path latin_lib (str ''OEBPS/bibliography.xhtml'') (str ''item13'') = False"
proof -
  have blob: "norm latin_lib (str ''OEBPS/bibliography.xhtml'') @ [32] @ norm latin_lib (str ''item13'')
      = str ''oebps/bibliography.xhtml item13''"
    by (simp add: norm_eval)
  show ?thesis
    unfolding looks_like_non_chapter_path_def Let_def list_ex_norm path_hints_norm blob
    by (simp add: str_def sublist_code prefix_code)
qed

lemma tablas_title: "looks_like_non_chapter latin_lib (str ''Tablas y cifras'') = False"
proof -
  have t: "norm latin_lib (str ''Tablas y cifras'') = str ''tablas y cifras''"
    by (simp add: norm_eval)
  show ?thesis
    unfolding looks_like_non_chapter_def Let_def list_ex_norm keywords_norm t
    by (simp add: str_def sublist_code prefix_code)
qed

text \<open>
  Claim C7 says that an item whose normalized path and id contain one of the hints, among
  them \<^verbatim>\<open>bibliography\<close> and \<^verbatim>\<open>appendix\<close>, is rejected. The code does otherwise: the path
  \<^verbatim>\<open>OEBPS/appendix.xhtml\<close> and the path \<^verbatim>\<open>OEBPS/bibliography.xhtml\<close> match no entry of the
  list, and an item of 300 words at the first path, titled ``Tablas y cifras'', is accepted
  with a minimum of 300 words.
\<close>

theorem appendix_path_not_rejected:
  "looks_like_non_chapter_path latin_lib (str ''OEBPS/appendix.xhtml'') (str ''item12'') = False \<and>
   looks_like_non_chapter_path latin_lib (str ''OEBPS/bibliography.xhtml'') (str ''item13'') = False \<and>
   length (split (words_text 300)) = 300 \<and>
   should_include_chapter latin_lib (str ''Tablas y cifras'') (words_text 300)
     (str ''OEBPS/appendix.xhtml'') (str ''item12'') 300 = True"
proof -
  have n: "(300::nat) = Suc 299"
    by simp
  have wc: "length (split (words_text 300)) = 300"
    unfolding n split_words_text by simp
  show ?thesis
    by (simp add: should_include_chapter_def wc appendix_path bibliography_path tablas_title)
qed

section \<open>The copyright and imprint heuristic\<close>










lemma linebreak_isspace: "islinebreak c \<Longrightarrow> isspace c"
  by (auto simp: islinebreak_def isspace_def)



















section \<open>The retry wrapper when every request fails\<close>




section \<open>The disk cache: what is read back\<close>








section \<open>The extraction loop, and the small archive extracted\<close>


lemma chapter_of_words:
  assumes "chapter_of L zf opf_dir manifest toc min_words i = Some ch"
  shows "min_words \<le> int (length (split (ch_text ch)))"
proof -
  obtain t h where "should_include_chapter L t (ch_text ch) h i min_words"
    using assms
    by (auto simp: chapter_of_def Let_def split: option.splits if_splits prod.splits)
  then show ?thesis
    by (simp add: should_include_chapter_def split: if_splits)
qed

lemma chapter_loop_map_filter:
  "chapter_loop L zf opf_dir manifest toc min_words ids acc =
     acc @ List.map_filter (chapter_of L zf opf_dir manifest toc min_words) ids"
  by (induction ids arbitrary: acc) (auto simp: List.map_filter_simps split: option.splits)


lemma extract_chapters_loop:
  assumes "extract_chapters L zf min_words = Inr (md, chapters)"
  shows "\<exists>spine_ids opf_dir manifest toc.
           read_spine zf = Inr spine_ids \<and>
           chapters = List.map_filter (chapter_of L zf opf_dir manifest toc min_words) spine_ids"
proof -
  obtain opf_path opf_root toc where p: "parse_container_for_opf_path zf = Inr opf_path"
    and r: "read_xml zf opf_path = Inr opf_root"
    and c: "chapters = chapter_loop L zf (dirname opf_path) (fst (parse_opf_manifest_spine opf_root))
              toc min_words (snd (parse_opf_manifest_spine opf_root)) []"
    using assms unfolding extract_chapters_def Let_def
    by (auto split: sum.splits)
  have "read_spine zf = Inr (snd (parse_opf_manifest_spine opf_root))"
    by (simp add: read_spine_def p r)
  then show ?thesis
    using c unfolding chapter_loop_map_filter by (metis append_Nil)
qed

lemmas xml_eval = find_first_def find_all_def find_all2_def get_attr_def attr_or_empty_def
  container_ns_def opf_ns_def dc_ns_def ncx_ns_def str_def

lemma small_container: "parse_container_for_opf_path small_epub = Inr (str ''OEBPS/content.opf'')"
  by (simp add: parse_container_for_opf_path_def read_xml_def zf_read_def small_epub_def
      book_documents_def xml_member_def html_member_def declared_opf_path_def container_tree_def
      xml_eval)

lemma small_opf: "read_xml small_epub (str ''OEBPS/content.opf'') = Inr opf_tree"
  by (simp add: read_xml_def zf_read_def small_epub_def book_documents_def xml_member_def
      html_member_def str_def)

lemma small_manifest_spine:
  "parse_opf_manifest_spine opf_tree =
     (small_manifest, [str ''cover'', str ''ch1'', str ''bib'', str ''p4''])"
  by (simp add: parse_opf_manifest_spine_def opf_tree_def opf_item_def opf_itemref_def
      small_manifest_def xml_eval)

lemma small_meta: "parse_opf_metadata opf_tree = (Some (str ''Mi libro''), [str ''Ana''])"
  by (simp add: parse_opf_metadata_def opf_tree_def opf_item_def opf_itemref_def xml_eval
      strip_def lstrip_def rstrip_def isspace_def)

lemma small_dirname: "dirname (str ''OEBPS/content.opf'') = str ''OEBPS''"
  by (simp add: dirname_def str_def)

lemma small_ncx: "locate_ncx latin_lib opf_tree small_manifest (str ''OEBPS'') = None"
  by (simp add: locate_ncx_def opf_tree_def opf_item_def opf_itemref_def small_manifest_def
      xml_eval latin_lib_def latin_lower_def suffix_def)

lemma toc_keywords_norm:
  "map (norm latin_lib) TOC_KEYWORDS =
     map str [''indice'', ''indice'', ''index'', ''contents'', ''table of contents'', ''sumario'']"
  by (simp add: TOC_KEYWORDS_def norm_eval)

lemmas zip_eval = zf_read_def namelist_def small_epub_def book_documents_def xml_member_def
  html_member_def

lemma small_paths:
  "join_epub_path (str ''OEBPS'') (str ''cover.xhtml'') = str ''OEBPS/cover.xhtml''"
  "join_epub_path (str ''OEBPS'') (str ''ch1.xhtml'') = str ''OEBPS/ch1.xhtml''"
  "join_epub_path (str ''OEBPS'') (str ''bib.xhtml'') = str ''OEBPS/bib.xhtml''"
  "join_epub_path (str ''OEBPS'') (str ''p4.xhtml'') = str ''OEBPS/p4.xhtml''"
  by (simp_all add: join_epub_path_def path_join_def absolute_def normpath_def norm_step_def
      str_def)

lemma ch1_text:
  "html_to_text (html_member chapter_one_text (Some (str ''Chapter One'')) None) = chapter_one_text"
  by (simp add: html_to_text_def html_member_def splitlines_def islinebreak_def strip_def
      lstrip_def rstrip_def isspace_def str_def chapter_one_text_def)

lemma ch1_words: "length (split chapter_one_text) = 7"
  by (simp add: split_def isspace_def str_def chapter_one_text_def)

lemma ch1_not_toc: "looks_like_toc latin_lib chapter_one_text = False"
proof -
  have n: "chapter_one_text \<noteq> []"
    by (simp add: chapter_one_text_def str_def)
  have l: "nonblank_stripped (splitlines chapter_one_text)
      = [str ''Chapter One'', str ''Era una vez un rey'']"
    by (simp add: nonblank_stripped_def splitlines_def islinebreak_def strip_def
      lstrip_def rstrip_def isspace_def str_def chapter_one_text_def)
  have t: "norm latin_lib (join [10] (slice_to 60 [str ''Chapter One'', str ''Era una vez un rey'']))
      = str ''chapter one era una vez un rey''"
    by (simp add: slice_to_def norm_eval)
  show ?thesis
    unfolding looks_like_toc_def Let_def l t list_ex_norm toc_keywords_norm
    using n by (simp add: str_def sublist_code prefix_code)
qed

lemma ch1_not_copyright: "looks_like_copyright_or_imprint latin_lib chapter_one_text = False"
proof -
  have t: "copyright_top latin_lib chapter_one_text = str ''chapter one era una vez un rey''"
    by (simp add: copyright_top_def nonblank_stripped_def splitlines_def islinebreak_def
        slice_to_def norm_eval chapter_one_text_def)
  show ?thesis
    unfolding looks_like_copyright_or_imprint_def Let_def hits_norm copyright_keywords_norm t
    by (simp add: str_def sublist_code prefix_code)
qed

lemma ch1_title: "looks_like_non_chapter latin_lib (str ''Chapter One'') = False"
proof -
  have t: "norm latin_lib (str ''Chapter One'') = str ''chapter one''"
    by (simp add: norm_eval)
  show ?thesis
    unfolding looks_like_non_chapter_def Let_def list_ex_norm keywords_norm t
    by (simp add: str_def sublist_code prefix_code)
qed

lemma ch1_path:
  "looks_like_non_chapter_path latin_lib (str ''OEBPS/ch1.xhtml'') (str ''ch1'') = False"
proof -
  have blob: "norm latin_lib (str ''OEBPS/ch1.xhtml'') @ [32] @ norm latin_lib (str ''ch1'')
      = str ''oebps/ch1.xhtml ch1''"
    by (simp add: norm_eval)
  show ?thesis
    unfolding looks_like_non_chapter_path_def Let_def list_ex_norm path_hints_norm blob
    by (simp add: str_def sublist_code prefix_code)
qed

lemma media_type_lower:
  "py_lower latin_lib (str ''application/xhtml+xml'') = str ''application/xhtml+xml''"
  by (simp add: latin_lib_def latin_lower_def str_def)

lemma chapter_of_eval:
  assumes "map_of manifest i = Some (h, mt)"
      and "py_lower L mt = str ''application/xhtml+xml''"
      and "join_epub_path opf_dir h = p"
      and "p \<in> set (namelist zf)"
      and "zf_read zf p = Some raw"
      and "html_to_text raw = txt"
      and "or_else (or_else (or_else (map_of toc p) (body_title raw)) (title_tag raw))
             (Some (if i \<noteq> [] then i else basename p)) = Some t"
      and "looks_like_toc L txt = False"
      and "looks_like_copyright_or_imprint L txt = False"
  shows "chapter_of L zf opf_dir manifest toc min_words i =
     (if should_include_chapter L t txt p i min_words
      then Some \<lparr>ch_idref = i, ch_href = p, ch_title = t, ch_text = txt\<rparr> else None)"
  by (simp add: chapter_of_def assms)

lemma ch1_chapter:
  "chapter_of latin_lib small_epub (str ''OEBPS'') small_manifest [] min_words (str ''ch1'')
     = (if min_words \<le> 7 then Some chapter_one else None)"
proof -
  let ?raw = "html_member chapter_one_text (Some (str ''Chapter One'')) None"
  have m: "map_of small_manifest (str ''ch1'') = Some (str ''ch1.xhtml'', str ''application/xhtml+xml'')"
    by (simp add: small_manifest_def str_def)
  have r: "str ''OEBPS/ch1.xhtml'' \<in> set (namelist small_epub)"
    "zf_read small_epub (str ''OEBPS/ch1.xhtml'') = Some ?raw"
    by (simp_all add: zip_eval str_def)
  have t: "or_else (or_else (or_else (map_of [] (str ''OEBPS/ch1.xhtml'')) (body_title ?raw))
       (title_tag ?raw))
       (Some (if str ''ch1'' \<noteq> [] then str ''ch1'' else basename (str ''OEBPS/ch1.xhtml'')))
      = Some (str ''Chapter One'')"
    by (simp add: or_else_def html_member_def str_def)
  show ?thesis
    unfolding chapter_of_eval [OF m media_type_lower small_paths(2) r ch1_text t ch1_not_toc
        ch1_not_copyright]
    by (auto simp: should_include_chapter_def ch1_words ch1_title ch1_path chapter_one_def)
qed

lemma norm_Nil: "norm latin_lib [] = []"
  by (simp add: norm_eval)

lemma cover_chapter:
  "chapter_of latin_lib small_epub (str ''OEBPS'') small_manifest [] min_words (str ''cover'') = None"
proof -
  let ?raw = "html_member (str ''Mi libro'') None (Some (str ''Portada''))"
  have m: "map_of small_manifest (str ''cover'')
      = Some (str ''cover.xhtml'', str ''application/xhtml+xml'')"
    by (simp add: small_manifest_def str_def)
  have r: "str ''OEBPS/cover.xhtml'' \<in> set (namelist small_epub)"
    "zf_read small_epub (str ''OEBPS/cover.xhtml'') = Some ?raw"
    by (simp_all add: zip_eval str_def)
  have x: "html_to_text ?raw = str ''Mi libro''"
    by (simp add: html_to_text_def html_member_def splitlines_def islinebreak_def strip_def
      lstrip_def rstrip_def isspace_def str_def)
  have t: "or_else (or_else (or_else (map_of [] (str ''OEBPS/cover.xhtml'')) (body_title ?raw))
       (title_tag ?raw))
       (Some (if str ''cover'' \<noteq> [] then str ''cover'' else basename (str ''OEBPS/cover.xhtml'')))
      = Some (str ''Portada'')"
    by (simp add: or_else_def html_member_def str_def)
  have l: "nonblank_stripped (splitlines (str ''Mi libro'')) = [str ''Mi libro'']"
    by (simp add: nonblank_stripped_def splitlines_def islinebreak_def strip_def
      lstrip_def rstrip_def isspace_def str_def)
  have n: "norm latin_lib (join [10] (slice_to 60 [str ''Mi libro''])) = str ''mi libro''"
    "copyright_top latin_lib (str ''Mi libro'') = str ''mi libro''"
    unfolding copyright_top_def by (simp_all add: l [unfolded nonblank_stripped_def]
      nonblank_stripped_def splitlines_def islinebreak_def slice_to_def norm_eval)
  have toc: "looks_like_toc latin_lib (str ''Mi libro'') = False"
    unfolding looks_like_toc_def Let_def l n list_ex_norm toc_keywords_norm
    by (simp add: str_def sublist_code prefix_code)
  have cr: "looks_like_copyright_or_imprint latin_lib (str ''Mi libro'') = False"
    unfolding looks_like_copyright_or_imprint_def Let_def hits_norm copyright_keywords_norm n
    by (simp add: str_def sublist_code prefix_code)
  have p: "norm latin_lib (str ''Portada'') = str ''portada''"
    by (simp add: norm_eval)
  have kw: "looks_like_non_chapter latin_lib (str ''Portada'')"
    unfolding looks_like_non_chapter_def Let_def list_ex_norm keywords_norm p
    by (simp add: str_def sublist_code prefix_code)
  show ?thesis
    unfolding chapter_of_eval [OF m media_type_lower small_paths(1) r x t toc cr]
    by (simp add: should_include_chapter_def kw)
qed

lemma bib_chapter:
  "chapter_of latin_lib small_epub (str ''OEBPS'') small_manifest [] min_words (str ''bib'') = None"
proof -
  let ?raw = "html_member (str ''Obras citadas por el autor'')
           (Some (str ''Bibliograf'' @ i_acute @ str ''a'')) None"
  have m: "map_of small_manifest (str ''bib'')
      = Some (str ''bib.xhtml'', str ''application/xhtml+xml'')"
    by (simp add: small_manifest_def str_def)
  have r: "str ''OEBPS/bib.xhtml'' \<in> set (namelist small_epub)"
    "zf_read small_epub (str ''OEBPS/bib.xhtml'') = Some ?raw"
    by (simp_all add: zip_eval str_def)
  have x: "html_to_text ?raw = str ''Obras citadas por el autor''"
    by (simp add: html_to_text_def html_member_def splitlines_def islinebreak_def strip_def
      lstrip_def rstrip_def isspace_def str_def)
  have t: "or_else (or_else (or_else (map_of [] (str ''OEBPS/bib.xhtml'')) (body_title ?raw))
       (title_tag ?raw))
       (Some (if str ''bib'' \<noteq> [] then str ''bib'' else basename (str ''OEBPS/bib.xhtml'')))
      = Some (str ''Bibliograf'' @ i_acute @ str ''a'')"
    by (simp add: or_else_def html_member_def str_def i_acute_def)
  have l: "nonblank_stripped (splitlines (str ''Obras citadas por el autor''))
      = [str ''Obras citadas por el autor'']"
    by (simp add: nonblank_stripped_def splitlines_def islinebreak_def strip_def
      lstrip_def rstrip_def isspace_def str_def)
  have n: "norm latin_lib (join [10] (slice_to 60 [str ''Obras citadas por el autor'']))
      = str ''obras citadas por el autor''"
    "copyright_top latin_lib (str ''Obras citadas por el autor'') = str ''obras citadas por el autor''"
    unfolding copyright_top_def by (simp_all add:
      nonblank_stripped_def splitlines_def islinebreak_def slice_to_def norm_eval)
  have toc: "looks_like_toc latin_lib (str ''Obras citadas por el autor'') = False"
    unfolding looks_like_toc_def Let_def l n list_ex_norm toc_keywords_norm
    by (simp add: str_def sublist_code prefix_code)
  have cr: "looks_like_copyright_or_imprint latin_lib (str ''Obras citadas por el autor'') = False"
    unfolding looks_like_copyright_or_imprint_def Let_def hits_norm copyright_keywords_norm n
    by (simp add: str_def sublist_code prefix_code)
  have p: "norm latin_lib (str ''Bibliograf'' @ i_acute @ str ''a'') = str ''bibliografia''"
    by (simp add: norm_eval)
  have kw: "looks_like_non_chapter latin_lib (str ''Bibliograf'' @ i_acute @ str ''a'')"
    unfolding looks_like_non_chapter_def Let_def list_ex_norm keywords_norm p
    by (simp add: str_def sublist_code prefix_code)
  show ?thesis
    unfolding chapter_of_eval [OF m media_type_lower small_paths(3) r x t toc cr]
    by (simp add: should_include_chapter_def kw)
qed

lemma p4_chapter:
  "chapter_of latin_lib small_epub (str ''OEBPS'') small_manifest [] min_words (str ''p4'')
     = (if min_words \<le> 0 then Some empty_page else None)"
proof -
  let ?raw = "html_member [] None (Some (str ''Fin''))"
  have m: "map_of small_manifest (str ''p4'')
      = Some (str ''p4.xhtml'', str ''application/xhtml+xml'')"
    by (simp add: small_manifest_def str_def)
  have r: "str ''OEBPS/p4.xhtml'' \<in> set (namelist small_epub)"
    "zf_read small_epub (str ''OEBPS/p4.xhtml'') = Some ?raw"
    by (simp_all add: zip_eval str_def)
  have x: "html_to_text ?raw = []"
    by (simp add: html_to_text_def html_member_def splitlines_def strip_Nil)
  have t: "or_else (or_else (or_else (map_of [] (str ''OEBPS/p4.xhtml'')) (body_title ?raw))
       (title_tag ?raw))
       (Some (if str ''p4'' \<noteq> [] then str ''p4'' else basename (str ''OEBPS/p4.xhtml'')))
      = Some (str ''Fin'')"
    by (simp add: or_else_def html_member_def str_def)
  have toc: "looks_like_toc latin_lib [] = False"
    by (simp add: looks_like_toc_def)
  have top: "copyright_top latin_lib [] = []"
    by (simp add: copyright_top_def splitlines_def slice_to_def nonblank_stripped_def norm_Nil)
  have cr: "looks_like_copyright_or_imprint latin_lib [] = False"
    unfolding looks_like_copyright_or_imprint_def Let_def hits_norm copyright_keywords_norm top
    by (simp add: str_def)
  have p: "norm latin_lib (str ''Fin'') = str ''fin''"
    by (simp add: norm_eval)
  have kw: "looks_like_non_chapter latin_lib (str ''Fin'') = False"
    unfolding looks_like_non_chapter_def Let_def list_ex_norm keywords_norm p
    by (simp add: str_def sublist_code prefix_code)
  have blob: "norm latin_lib (str ''OEBPS/p4.xhtml'') @ [32] @ norm latin_lib (str ''p4'')
      = str ''oebps/p4.xhtml p4''"
    by (simp add: norm_eval)
  have pa: "looks_like_non_chapter_path latin_lib (str ''OEBPS/p4.xhtml'') (str ''p4'') = False"
    unfolding looks_like_non_chapter_path_def Let_def list_ex_norm path_hints_norm blob
    by (simp add: str_def sublist_code prefix_code)
  show ?thesis
    unfolding chapter_of_eval [OF m media_type_lower small_paths(4) r x t toc cr]
    by (auto simp: should_include_chapter_def kw pa split_Nil empty_page_def)
qed

lemma small_epub_chapters:
  "extract_chapters latin_lib small_epub min_words =
     Inr (small_metadata ((if min_words \<le> 7 then 1 else 0) + (if min_words \<le> 0 then 1 else 0)),
          (if min_words \<le> 7 then [chapter_one] else []) @
          (if min_words \<le> 0 then [empty_page] else []))"
  by (simp add: extract_chapters_def small_container small_dirname small_opf
      small_manifest_spine small_meta small_ncx ch1_chapter cover_chapter bib_chapter
      p4_chapter small_metadata_def)


section \<open>Locating the package descriptor\<close>

lemma opf_fallback_first:
  "opf_fallback zf = Inr c \<longleftrightarrow>
     (\<exists>i < length opf_candidates. c = opf_candidates ! i \<and> c \<in> set (namelist zf) \<and>
        (\<forall>j < i. opf_candidates ! j \<notin> set (namelist zf)))"
proof -
  have "opf_fallback zf = Inr c \<longleftrightarrow>
      find (\<lambda>candidate. candidate \<in> set (namelist zf)) opf_candidates = Some c"
    by (simp add: opf_fallback_def split: option.splits)
  then show ?thesis
    unfolding find_Some_iff by blast
qed

lemma opf_fallback_none:
  "opf_fallback zf = Inl e \<longleftrightarrow>
     e = ValueError \<and> \<not> list_ex (\<lambda>c. c \<in> set (namelist zf)) opf_candidates"
proof -
  have "opf_fallback zf = Inl e \<longleftrightarrow>
      e = ValueError \<and> find (\<lambda>candidate. candidate \<in> set (namelist zf)) opf_candidates = None"
    by (auto simp: opf_fallback_def split: option.splits)
  then show ?thesis
    unfolding find_None_iff list_ex_iff by blast
qed

text \<open>
  Claim C4, as the code has it. When the container file is absent from the archive, or is
  present and parsed but declares no root-file path, \<^verbatim>\<open>_parse_container_for_opf_path\<close>
  falls back to the three conventional paths: it returns the first of them that is a member
  of the archive, and raises \<^verbatim>\<open>ValueError\<close> exactly when none is. When the container file
  is present but not well-formed, it raises the parser's \<^verbatim>\<open>XMLSyntaxError\<close> and tries no
  conventional path.
\<close>

theorem container_locator_fallback:
  "(zf_read zf (str ''META-INF/container.xml'') = None \<longrightarrow>
      parse_container_for_opf_path zf = opf_fallback zf) \<and>
   (zf_read zf (str ''META-INF/container.xml'') = Some m \<and> xml m = Some tree \<and>
      declared_opf_path tree = None \<longrightarrow>
      parse_container_for_opf_path zf = opf_fallback zf) \<and>
   (zf_read zf (str ''META-INF/container.xml'') = Some m \<and> xml m = None \<longrightarrow>
      parse_container_for_opf_path zf = Inl XMLSyntaxError) \<and>
   (opf_fallback zf = Inr c \<longleftrightarrow>
      (\<exists>i < length opf_candidates. c = opf_candidates ! i \<and> c \<in> set (namelist zf) \<and>
         (\<forall>j < i. opf_candidates ! j \<notin> set (namelist zf)))) \<and>
   (opf_fallback zf = Inl e \<longleftrightarrow>
      e = ValueError \<and> \<not> list_ex (\<lambda>c. c \<in> set (namelist zf)) opf_candidates)"
  using opf_fallback_first [of zf c] opf_fallback_none [of zf e]
  by (simp add: parse_container_for_opf_path_def read_xml_def)


lemma candidates_absent:
  "\<not> list_ex (\<lambda>c. c \<in> set (namelist no_descriptor_epub)) opf_candidates"
  by (simp add: opf_candidates_def namelist_def no_descriptor_epub_def str_def)

lemma book_fallback: "opf_fallback book_documents = Inr (str ''OEBPS/content.opf'')"
  by (simp add: opf_fallback_def opf_candidates_def namelist_def book_documents_def str_def)

lemma fallback_Cons:
  "name \<notin> set opf_candidates \<Longrightarrow> opf_fallback ((name, m) # zf) = opf_fallback zf"
proof -
  assume "name \<notin> set opf_candidates"
  then have "find (\<lambda>c. c \<in> set (namelist ((name, m) # zf))) opf_candidates
      = find (\<lambda>c. c \<in> set (namelist zf)) opf_candidates"
    by (intro find_cong) (auto simp: namelist_def)
  then show ?thesis
    by (simp add: opf_fallback_def)
qed

lemma container_no_candidate: "str ''META-INF/container.xml'' \<notin> set opf_candidates"
  by (simp add: opf_candidates_def str_def)

text \<open>
  The theorem at an archive without container file, at one whose container file declares
  nothing, and at one that has no descriptor at any conventional path.
\<close>

theorem container_locator_fallback_witness:
  "zf_read no_container_epub (str ''META-INF/container.xml'') = None \<and>
   parse_container_for_opf_path no_container_epub = Inr (str ''OEBPS/content.opf'') \<and>
   zf_read empty_container_epub (str ''META-INF/container.xml'')
     = Some (xml_member (Element (container_ns, str ''container'') [] None [])) \<and>
   declared_opf_path (Element (container_ns, str ''container'') [] None []) = None \<and>
   parse_container_for_opf_path empty_container_epub = Inr (str ''OEBPS/content.opf'') \<and>
   zf_read no_descriptor_epub (str ''META-INF/container.xml'') = None \<and>
   parse_container_for_opf_path no_descriptor_epub = Inl ValueError"
proof -
  let ?c = "str ''META-INF/container.xml''"
  let ?t = "Element (container_ns, str ''container'') [] None []"
  have a: "zf_read no_container_epub ?c = None"
    by (simp add: zf_read_def no_container_epub_def book_documents_def str_def map_of_eq_None_iff)
  have b: "zf_read empty_container_epub ?c = Some (xml_member ?t)" "xml (xml_member ?t) = Some ?t"
    by (simp_all add: zf_read_def empty_container_epub_def book_documents_def str_def
        xml_member_def)
  have d: "declared_opf_path ?t = None"
    by (simp add: declared_opf_path_def find_first_def)
  have n: "zf_read no_descriptor_epub ?c = None"
    by (simp add: zf_read_def no_descriptor_epub_def str_def)
  have f1: "opf_fallback no_container_epub = Inr (str ''OEBPS/content.opf'')"
    by (simp add: no_container_epub_def book_fallback)
  have f2: "opf_fallback empty_container_epub = Inr (str ''OEBPS/content.opf'')"
    unfolding empty_container_epub_def fallback_Cons [OF container_no_candidate]
    by (rule book_fallback)
  have f3: "opf_fallback no_descriptor_epub = Inl ValueError"
    using container_locator_fallback [of no_descriptor_epub "html_member [] None None"
        container_tree "[]" ValueError]
      candidates_absent by simp
  show ?thesis
    using container_locator_fallback [of no_container_epub "xml_member ?t" ?t]
      container_locator_fallback [of empty_container_epub "xml_member ?t" ?t]
      container_locator_fallback [of no_descriptor_epub "xml_member ?t" ?t]
      a b d n f1 f2 f3
    by simp
qed

text \<open>
  Claim C4 as stated fails for a container file that is not well-formed: the descriptor
  stands at a conventional path, the fallback would find it, and the code raises
  \<^verbatim>\<open>XMLSyntaxError\<close> instead.
\<close>

theorem container_unparsable_counterexample:
  "zf_read broken_container_epub (str ''META-INF/container.xml'') = Some (html_member [] None None) \<and>
   xml (html_member [] None None) = None \<and>
   opf_fallback broken_container_epub = Inr (str ''OEBPS/content.opf'') \<and>
   parse_container_for_opf_path broken_container_epub = Inl XMLSyntaxError"
proof -
  have r: "zf_read broken_container_epub (str ''META-INF/container.xml'')
      = Some (html_member [] None None)"
    by (simp add: zf_read_def broken_container_epub_def book_documents_def str_def)
  have f: "opf_fallback broken_container_epub = Inr (str ''OEBPS/content.opf'')"
    unfolding broken_container_epub_def fallback_Cons [OF container_no_candidate]
    by (rule book_fallback)
  show ?thesis
    by (simp add: r f parse_container_for_opf_path_def read_xml_def html_member_def)
qed


section \<open>The order of the extracted chapters\<close>





section \<open>The word-count boundary of the classifier\<close>

text \<open>
  Claim C6, as the code has it. \<^verbatim>\<open>should_include_chapter\<close> rejects every item whose text has
  fewer words than \<^verbatim>\<open>min_words\<close>, and accepts an item of exactly \<^verbatim>\<open>min_words\<close> words whose
  title holds no keyword and whose path and id hold no hint. So every chapter that
  \<^verbatim>\<open>extract_chapters\<close> returns has at least \<^verbatim>\<open>min_words\<close> words, and its text is not empty
  when \<^verbatim>\<open>min_words\<close> is positive.
\<close>

theorem classifier_word_boundary:
  "(int (length (split txt)) < min_words \<longrightarrow>
      \<not> should_include_chapter L t txt h i min_words) \<and>
   (int (length (split txt)) = min_words \<and> \<not> looks_like_non_chapter L t \<and>
      \<not> looks_like_non_chapter_path L h i \<longrightarrow>
      should_include_chapter L t txt h i min_words) \<and>
   (extract_chapters L zf min_words = Inr (md, chapters) \<and> ch \<in> set chapters \<longrightarrow>
      min_words \<le> int (length (split (ch_text ch))) \<and> (0 < min_words \<longrightarrow> ch_text ch \<noteq> []))"
proof -
  have "min_words \<le> int (length (split (ch_text ch))) \<and> (0 < min_words \<longrightarrow> ch_text ch \<noteq> [])"
    if e: "extract_chapters L zf min_words = Inr (md, chapters)" and m: "ch \<in> set chapters"
  proof -
    obtain spine_ids opf_dir manifest toc where
      c: "chapters = List.map_filter (chapter_of L zf opf_dir manifest toc min_words) spine_ids"
      using extract_chapters_loop [OF e] by blast
    then obtain i where "chapter_of L zf opf_dir manifest toc min_words i = Some ch"
      using m by (auto simp: List.map_filter_def)
    then have w: "min_words \<le> int (length (split (ch_text ch)))"
      by (rule chapter_of_words)
    then have "0 < min_words \<longrightarrow> ch_text ch \<noteq> []"
      by (auto simp: split_Nil)
    with w show ?thesis by simp
  qed
  then show ?thesis
    by (auto simp: should_include_chapter_def)
qed

lemma three_words: "length (split (str ''Era una vez'')) = 3"
  by (simp add: split_def isspace_def str_def)

lemma two_words: "length (split (str ''Mi libro'')) = 2"
  by (simp add: split_def isspace_def str_def)

text \<open>
  The theorem with a minimum of 3 words: at a text of two words, at a text of three, and
  at the chapter extracted from the small archive.
\<close>

theorem classifier_word_boundary_witness:
  "\<not> should_include_chapter latin_lib (str ''Chapter One'') (str ''Mi libro'')
       (str ''OEBPS/ch1.xhtml'') (str ''ch1'') 3 \<and>
   should_include_chapter latin_lib (str ''Chapter One'') (str ''Era una vez'')
     (str ''OEBPS/ch1.xhtml'') (str ''ch1'') 3 \<and>
   extract_chapters latin_lib small_epub 3 = Inr (small_metadata 1, [chapter_one]) \<and>
   3 \<le> int (length (split (ch_text chapter_one))) \<and> ch_text chapter_one \<noteq> []"
proof -
  have e: "extract_chapters latin_lib small_epub 3 = Inr (small_metadata 1, [chapter_one])"
    by (simp add: small_epub_chapters)
  show ?thesis
    using classifier_word_boundary [of "str ''Mi libro''" 3 latin_lib "str ''Chapter One''"
        "str ''OEBPS/ch1.xhtml''" "str ''ch1''" small_epub "small_metadata 1" "[chapter_one]"
        chapter_one]
      classifier_word_boundary [of "str ''Era una vez''" 3 latin_lib "str ''Chapter One''"
        "str ''OEBPS/ch1.xhtml''" "str ''ch1''" small_epub "small_metadata 1" "[chapter_one]"
        chapter_one]
      e
    by (simp add: two_words three_words ch1_title ch1_path)
qed

text \<open>
  Claim C6 as stated fails for a minimum of 0 words, which the command line accepts: the
  empty page of the small archive is extracted as a chapter whose text is empty.
\<close>

theorem accepted_empty_chapter_counterexample:
  "extract_chapters latin_lib small_epub 0 = Inr (small_metadata 2, [chapter_one, empty_page]) \<and>
   ch_text empty_page = []"
  by (simp add: small_epub_chapters empty_page_def numeral_2_eq_2)

end
